theory Spec2Isabelle
  imports Main
begin

section \<open>Values shared by the three modules\<close>

text \<open>
  The repository has three source files: \<^verbatim>\<open>setupDatabase\<close> (the storage connection),
  \<^verbatim>\<open>setupServer.ts\<close> (class \<^verbatim>\<open>ChattyServer\<close>) and \<^verbatim>\<open>app.ts\<close> (class
  \<^verbatim>\<open>Application\<close>). The code is asynchronous: a call such as \<^verbatim>\<open>mongoose.connect\<close>
  returns a promise that the runtime settles later. The model is a state machine: the
  synchronous part of every function is a state transformer, the part after an
  \<^verbatim>\<open>await\<close>, a \<^verbatim>\<open>.then\<close> or a \<^verbatim>\<open>.catch\<close> is a transformer that the event settling the
  promise runs. Everything the process does to the outside is appended to a trace.
  Calls into libraries (the logger, express, socket.io, redis, mongoose) are taken to
  return normally, with the exception of \<^verbatim>\<open>res.json\<close> and of the decoding of the request
  path, whose failures decide what a request is answered.
\<close>

text \<open>A value that is thrown or that rejects a promise. \<^verbatim>\<open>CustomError\<close> is declared in
  \<^verbatim>\<open>./shared/globals/helpers/error-handler\<close>, which is not among the sources: its
  \<^verbatim>\<open>statusCode\<close> and the value of its \<^verbatim>\<open>serializeErrors()\<close> are the two fields.\<close>

datatype json =
    JNull
  | JBool bool
  | JNum int
  | JStr string
  | JArr "json list"
  | JObj "(string \<times> json) list"

datatype jserror =
    CustomError nat json
  | OtherError string

record config =
  DATABASE_URL :: string
  REDIS_HOST :: string
  CLIENT_URL :: string

definition SERVER_PORT :: nat where
  "SERVER_PORT = 6000"

text \<open>\<^verbatim>\<open>HTTP_STATUS.NOT_FOUND\<close> of the package http-status-codes.\<close>

definition NOT_FOUND :: nat where
  "NOT_FOUND = 404"

text \<open>The two loggers, \<^verbatim>\<open>config.createLogger('setupDatabase')\<close> and
  \<^verbatim>\<open>config.createLogger('setupServer')\<close>.\<close>

datatype logger = SetupDatabase | SetupServer

text \<open>A redis client object: its identity and the url it was created for.\<close>

record client =
  handle :: nat
  url :: string

datatype action =
    ValidateConfig
  | MongooseConnect string
  | OnDisconnected
  | LogInfo logger string
  | LogError logger "string option" jserror
  | ProcessExit nat
  | Express
  | AppUse string
  | ApplicationRoutes
  | AppAll string
  | AppUseErrorHandler
  | NewHttpServer
  | NewSocketIO string
  | CreateClient nat string
  | Duplicate nat nat
  | ClientConnect nat
  | IoAdapter nat nat
  | HttpListen nat

section \<open>The express application: requests, responses, the layer stack\<close>

text \<open>A request: its method, its url, and whether the validators it carries
  (\<^verbatim>\<open>If-None-Match\<close>, \<^verbatim>\<open>If-Modified-Since\<close>) match the response that a given body makes,
  which is what \<^verbatim>\<open>req.fresh\<close> of express reports for a successful response.\<close>

record request =
  req_method :: string
  originalUrl :: string
  validators_match :: "json \<Rightarrow> bool"

text \<open>The path of a request, as express matches it: the url up to its query string.\<close>

definition pathname :: "string \<Rightarrow> string" where
  "pathname u = takeWhile (\<lambda>ch. ch \<noteq> CHR ''?'') u"

text \<open>What a response carries: a JSON value (\<^verbatim>\<open>res.json\<close>) or nothing (\<^verbatim>\<open>res.end()\<close>).\<close>

datatype body = Json json | Empty

text \<open>The response object together with the server's log: the current status code, and
  the status and body that were sent, once they are.\<close>

record exchange =
  statusCode :: nat
  sent :: "(nat \<times> body) option"
  logged :: "action list"

definition fresh_exchange :: exchange where
  "fresh_exchange = \<lparr>statusCode = 200, sent = None, logged = []\<rparr>"

text \<open>\<^verbatim>\<open>res.status(c)\<close> of express 4 sets the status code and checks nothing.\<close>

definition res_status :: "nat \<Rightarrow> exchange \<Rightarrow> exchange" where
  "res_status c x = x\<lparr>statusCode := c\<rparr>"

text \<open>Whether a response carries the body it is given: not in answer to a \<^verbatim>\<open>HEAD\<close>
  request, not under an informational status, and not under 204, 205 or 304. (Under
  205 express has dropped the body since its version 4.18.)\<close>

definition has_body :: "string \<Rightarrow> nat \<Rightarrow> bool" where
  "has_body m c \<longleftrightarrow> m \<noteq> ''HEAD'' \<and> 200 \<le> c \<and> c \<noteq> 204 \<and> c \<noteq> 205 \<and> c \<noteq> 304"

text \<open>\<^verbatim>\<open>req.fresh\<close>: a \<^verbatim>\<open>GET\<close> or \<^verbatim>\<open>HEAD\<close> request whose validators match, while the status
  is one of success or 304. Express answers such a request with 304.\<close>

definition fresh :: "request \<Rightarrow> nat \<Rightarrow> json \<Rightarrow> bool" where
  "fresh req c b \<longleftrightarrow>
     (req_method req = ''GET'' \<or> req_method req = ''HEAD'') \<and>
     (200 \<le> c \<and> c < 300 \<or> c = 304) \<and> validators_match req b"

text \<open>\<^verbatim>\<open>res.json(b)\<close>, on the response to the request \<open>req\<close>, sends the body under the current
  status code. As express 4 and node's http module have it, the call throws when a
  response was already sent (setting a header then fails) and when the status code is
  not within 100..999 (writing the head then fails); nothing is sent in either case.\<close>

definition res_json :: "request \<Rightarrow> json \<Rightarrow> exchange \<Rightarrow> jserror + exchange" where
  "res_json req b x =
     (if sent x \<noteq> None then Inl (OtherError ''ERR_HTTP_HEADERS_SENT'')
      else if statusCode x < 100 \<or> 999 < statusCode x
        then Inl (OtherError ''ERR_HTTP_INVALID_STATUS_CODE'')
      else let c = (if fresh req (statusCode x) b then 304 else statusCode x)
           in Inr (x\<lparr>statusCode := c,
                     sent := Some (c, if has_body (req_method req) c then Json b else Empty)\<rparr>))"

definition log_error :: "jserror \<Rightarrow> exchange \<Rightarrow> exchange" where
  "log_error e x = x\<lparr>logged := logged x @ [LogError SetupServer None e]\<rparr>"

text \<open>What a handler does with the control: it returns without calling \<^verbatim>\<open>next\<close>
  (\<open>Stop\<close>), it calls \<^verbatim>\<open>next()\<close> (\<open>Next None\<close>) or \<^verbatim>\<open>next(err)\<close> (\<open>Next (Some err)\<close>), or it
  throws (\<open>Throw err\<close>). Express catches what a handler throws and goes on as after
  \<^verbatim>\<open>next(err)\<close>.\<close>

datatype signal = Stop | Next "jserror option" | Throw jserror

type_synonym handler = "request \<Rightarrow> exchange \<Rightarrow> exchange \<times> signal"

text \<open>Whether a route matches a request. Express decodes the part of the path that the
  pattern captures; when that fails the layer is passed over and the error is pending.\<close>

datatype matching = Matches | NoMatch | Malformed jserror

text \<open>A layer of the stack: \<^verbatim>\<open>app.use(fn)\<close>, a route (\<^verbatim>\<open>app.all(path, fn)\<close> and the routes
  that \<^verbatim>\<open>aplicationRoutes\<close> registers) with the test that the request matches it, and
  \<^verbatim>\<open>app.use(fn)\<close> for a function of four parameters, which express calls only while an
  error is pending.\<close>

datatype layer =
    Use handler
  | Route "request \<Rightarrow> matching" handler
  | UseError "jserror \<Rightarrow> handler"

text \<open>The libraries and the routes that \<^verbatim>\<open>setupServer.ts\<close> imports and that are not among
  the sources, and the built-in \<^verbatim>\<open>decodeURIComponent\<close> (\<open>None\<close> where it throws
  \<^verbatim>\<open>URIError\<close>).\<close>

record externals =
  cookieSession :: handler
  hpp :: handler
  helmet :: handler
  compression :: handler
  json_parser :: handler
  urlencoded :: handler
  aplicationRoutes :: "layer list"
  decodeURIComponent :: "string \<Rightarrow> string option"

text \<open>The middleware that \<^verbatim>\<open>cors({origin, credentials: true, optionsSuccessStatus: 200,
  methods})\<close> returns, as the package has it without \<^verbatim>\<open>preflightContinue\<close>. With an empty
  \<^verbatim>\<open>origin\<close> it passes every request on and does nothing else. Otherwise it sets its
  headers, which fails on a response already sent; it answers an \<^verbatim>\<open>OPTIONS\<close> request
  itself, with the status \<^verbatim>\<open>optionsSuccessStatus\<close> and no body; it passes every other
  request on.\<close>

definition optionsSuccessStatus :: nat where
  "optionsSuccessStatus = 200"

definition cors :: "string \<Rightarrow> handler" where
  "cors origin req x =
     (if origin = [] then (x, Next None)
      else if sent x \<noteq> None then (x, Throw (OtherError ''ERR_HTTP_HEADERS_SENT''))
      else if req_method req = ''OPTIONS''
        then (x\<lparr>statusCode := optionsSuccessStatus,
                sent := Some (optionsSuccessStatus, Empty)\<rparr>, Stop)
      else (x, Next None))"

text \<open>How express runs a request through the stack: the layers in the order of their
  registration; while no error is pending the error handlers are passed over, while one
  is pending everything else is. A handler that calls \<^verbatim>\<open>next()\<close> clears the pending error.
  The result at the end of the stack is what is left for express's own final handler.\<close>

fun dispatch :: "layer list \<Rightarrow> jserror option \<Rightarrow> request \<Rightarrow> exchange \<Rightarrow> exchange \<times> signal" where
  "dispatch [] pending req x = (x, Next pending)"
| "dispatch (Use h # ls) None req x =
     (case h req x of
        (x', Stop) \<Rightarrow> (x', Stop)
      | (x', Next e) \<Rightarrow> dispatch ls e req x'
      | (x', Throw e) \<Rightarrow> dispatch ls (Some e) req x')"
| "dispatch (Use h # ls) (Some err) req x = dispatch ls (Some err) req x"
| "dispatch (Route m h # ls) None req x =
     (case m req of
        Matches \<Rightarrow>
          (case h req x of
             (x', Stop) \<Rightarrow> (x', Stop)
           | (x', Next e) \<Rightarrow> dispatch ls e req x'
           | (x', Throw e) \<Rightarrow> dispatch ls (Some e) req x')
      | NoMatch \<Rightarrow> dispatch ls None req x
      | Malformed e \<Rightarrow> dispatch ls (Some e) req x)"
| "dispatch (Route m h # ls) (Some err) req x = dispatch ls (Some err) req x"
| "dispatch (UseError h # ls) None req x = dispatch ls None req x"
| "dispatch (UseError h # ls) (Some err) req x =
     (case h err req x of
        (x', Stop) \<Rightarrow> (x', Stop)
      | (x', Next e) \<Rightarrow> dispatch ls e req x'
      | (x', Throw e) \<Rightarrow> dispatch ls (Some e) req x')"

section \<open>The process\<close>

text \<open>The promise of one \<^verbatim>\<open>client.connect()\<close>.\<close>

datatype promise = Unstarted | Pending | Fulfilled | Rejected jserror

text \<open>The socket.io server: its cors origin, the adapter created from the two redis
  clients, and the listeners registered for its \<^verbatim>\<open>connection\<close> event.\<close>

record io_server =
  cors_origin :: string
  adapter :: "(client \<times> client) option"
  connection_listeners :: "string list"

text \<open>The promise that \<^verbatim>\<open>createSocketIO\<close> returns and \<^verbatim>\<open>startServer\<close> awaits. While it is
  pending the function is suspended at \<^verbatim>\<open>await Promise.all([...])\<close> and its local
  constants \<^verbatim>\<open>io\<close>, \<^verbatim>\<open>pubClient\<close> and \<^verbatim>\<open>subClient\<close> are kept for the rest of its body.\<close>

datatype bridge_promise =
    NotCalled
  | Awaiting io_server client client
  | Resolved io_server
  | RejectedWith jserror

datatype role = Pub | Sub

record proc =
  cfg :: config
  pid :: string
  trace :: "action list"
  exit_code :: "nat option"
  app :: "layer list"
  db_pending :: nat
  disconnected_listeners :: nat
  next_handle :: nat
  pub_conn :: promise
  sub_conn :: promise
  socketIO :: bridge_promise
  listen_called :: bool
  listening :: bool

definition init_proc :: "config \<Rightarrow> string \<Rightarrow> proc" where
  "init_proc c i =
     \<lparr>cfg = c, pid = i, trace = [], exit_code = None, app = [], db_pending = 0,
      disconnected_listeners = 0, next_handle = 0, pub_conn = Unstarted,
      sub_conn = Unstarted, socketIO = NotCalled, listen_called = False,
      listening = False\<rparr>"

definition emit :: "action \<Rightarrow> proc \<Rightarrow> proc" where
  "emit a p = p\<lparr>trace := trace p @ [a]\<rparr>"

subsection \<open>setupDatabase\<close>

text \<open>\<^verbatim>\<open>connect\<close>: the call \<^verbatim>\<open>mongoose.connect(url)\<close> leaves one more promise pending;
  \<open>connect_then\<close> and \<open>connect_catch\<close> are the two callbacks chained on it.\<close>

definition connect :: "proc \<Rightarrow> proc" where
  "connect p =
     (emit (MongooseConnect (DATABASE_URL (cfg p))) p)\<lparr>db_pending := Suc (db_pending p)\<rparr>"

definition connect_then :: "proc \<Rightarrow> proc" where
  "connect_then p = emit (LogInfo SetupDatabase ''Succesfully connected to database.'') p"

definition process_exit :: "nat \<Rightarrow> proc \<Rightarrow> proc" where
  "process_exit c p = (emit (ProcessExit c) p)\<lparr>exit_code := Some c\<rparr>"

definition connect_catch :: "jserror \<Rightarrow> proc \<Rightarrow> proc" where
  "connect_catch error p =
     process_exit 1
       (emit (LogError SetupDatabase (Some ''Error connecting to database'') error) p)"

text \<open>The exported function: \<^verbatim>\<open>connect()\<close>, then
  \<^verbatim>\<open>mongoose.connection.on('disconnected', connect)\<close>.\<close>

definition databaseConnection :: "proc \<Rightarrow> proc" where
  "databaseConnection p =
     (let p1 = connect p
      in (emit OnDisconnected p1)\<lparr>disconnected_listeners := Suc (disconnected_listeners p1)\<rparr>)"

subsection \<open>setupServer.ts: the middleware\<close>

definition app_use :: "string \<Rightarrow> handler \<Rightarrow> proc \<Rightarrow> proc" where
  "app_use name h p = (emit (AppUse name) p)\<lparr>app := app p @ [Use h]\<rparr>"

definition securityMiddleware :: "externals \<Rightarrow> proc \<Rightarrow> proc" where
  "securityMiddleware ext p =
     app_use ''cors'' (cors (CLIENT_URL (cfg p)))
       (app_use ''helmet'' (helmet ext)
         (app_use ''hpp'' (hpp ext)
           (app_use ''cookieSession'' (cookieSession ext) p)))"

definition standardMiddleware :: "externals \<Rightarrow> proc \<Rightarrow> proc" where
  "standardMiddleware ext p =
     app_use ''urlencoded'' (urlencoded ext)
       (app_use ''json'' (json_parser ext)
         (app_use ''compression'' (compression ext) p))"

definition routeMiddleware :: "externals \<Rightarrow> proc \<Rightarrow> proc" where
  "routeMiddleware ext p = (emit ApplicationRoutes p)\<lparr>app := app p @ aplicationRoutes ext\<rparr>"

text \<open>The two handlers that \<^verbatim>\<open>globalErrorHandler\<close> registers, named after it: the one of
  \<^verbatim>\<open>app.all('*', ...)\<close> and the one of \<^verbatim>\<open>app.use((error, _req, res, next) => ...)\<close>. In the
  second, \<^verbatim>\<open>next()\<close> is the statement after \<^verbatim>\<open>res.status(...).json(...)\<close>: it is reached
  only when that call returns.\<close>

definition globalErrorHandler_notFound :: handler where
  "globalErrorHandler_notFound req x =
     (case res_json req (JObj [(''message'', JStr (originalUrl req @ '' not found''))])
             (res_status NOT_FOUND x) of
        Inl thrown \<Rightarrow> (res_status NOT_FOUND x, Throw thrown)
      | Inr x' \<Rightarrow> (x', Stop))"

definition globalErrorHandler_onError :: "jserror \<Rightarrow> handler" where
  "globalErrorHandler_onError error req x =
     (let x1 = log_error error x
      in case error of
           CustomError sc body \<Rightarrow>
             (case res_json req body (res_status sc x1) of
                Inl thrown \<Rightarrow> (res_status sc x1, Throw thrown)
              | Inr x2 \<Rightarrow> (x2, Next None))
         | OtherError m \<Rightarrow> (x1, Next None))"

text \<open>The pattern \<^verbatim>\<open>'*'\<close> matches every path and \<^verbatim>\<open>app.all\<close> every method; express decodes
  the path for the parameter of the pattern, and a path that does not decode leaves
  the error pending instead.\<close>

definition match_star :: "externals \<Rightarrow> request \<Rightarrow> matching" where
  "match_star ext req =
     (case decodeURIComponent ext (pathname (originalUrl req)) of
        None \<Rightarrow> Malformed (OtherError ''URIError'')
      | Some decoded \<Rightarrow> Matches)"

definition globalErrorHandler :: "externals \<Rightarrow> proc \<Rightarrow> proc" where
  "globalErrorHandler ext p =
     (let p1 = (emit (AppAll ''*'') p)
                 \<lparr>app := app p @ [Route (match_star ext) globalErrorHandler_notFound]\<rparr>
      in (emit AppUseErrorHandler p1)
           \<lparr>app := app p1 @ [UseError globalErrorHandler_onError]\<rparr>)"

subsection \<open>setupServer.ts: the servers\<close>

definition createClient :: "string \<Rightarrow> proc \<Rightarrow> client \<times> proc" where
  "createClient u p =
     (\<lparr>handle = next_handle p, url = u\<rparr>,
      (emit (CreateClient (next_handle p) u) p)\<lparr>next_handle := Suc (next_handle p)\<rparr>)"

text \<open>\<^verbatim>\<open>client.duplicate()\<close> of the redis package: a new client object with the options
  of the one it is called on.\<close>

definition duplicate :: "client \<Rightarrow> proc \<Rightarrow> client \<times> proc" where
  "duplicate c p =
     (\<lparr>handle = next_handle p, url = url c\<rparr>,
      (emit (Duplicate (handle c) (next_handle p)) p)\<lparr>next_handle := Suc (next_handle p)\<rparr>)"

text \<open>\<^verbatim>\<open>createSocketIO\<close> up to its \<^verbatim>\<open>await\<close>: both \<^verbatim>\<open>connect()\<close> calls are made, in the
  order of the array, before the function suspends.\<close>

definition createSocketIO :: "proc \<Rightarrow> proc" where
  "createSocketIO p =
     (let io = \<lparr>cors_origin = CLIENT_URL (cfg p), adapter = None, connection_listeners = []\<rparr>;
          p1 = emit (NewSocketIO (CLIENT_URL (cfg p))) p;
          (pubClient, p2) = createClient (REDIS_HOST (cfg p1)) p1;
          (subClient, p3) = duplicate pubClient p2;
          p4 = (emit (ClientConnect (handle pubClient)) p3)\<lparr>pub_conn := Pending\<rparr>;
          p5 = (emit (ClientConnect (handle subClient)) p4)\<lparr>sub_conn := Pending\<rparr>
      in p5\<lparr>socketIO := Awaiting io pubClient subClient\<rparr>)"

text \<open>The rest of \<^verbatim>\<open>createSocketIO\<close>, run when \<^verbatim>\<open>Promise.all\<close> is fulfilled:
  \<^verbatim>\<open>io.adapter(createAdapter(pubClient, subClient)); return io\<close>.\<close>

definition createSocketIO_resume :: "io_server \<Rightarrow> client \<Rightarrow> client \<Rightarrow> proc \<Rightarrow> io_server \<times> proc" where
  "createSocketIO_resume io pubClient subClient p =
     (let io' = io\<lparr>adapter := Some (pubClient, subClient)\<rparr>
      in (io', (emit (IoAdapter (handle pubClient) (handle subClient)) p)\<lparr>socketIO := Resolved io'\<rparr>))"

text \<open>\<^verbatim>\<open>private socketIOConnections(io: Server): void {}\<close>\<close>

definition socketIOConnections :: "io_server \<Rightarrow> io_server" where
  "socketIOConnections io = io"

definition startHttpServer :: "proc \<Rightarrow> proc" where
  "startHttpServer p =
     (emit (HttpListen SERVER_PORT)
        (emit (LogInfo SetupServer (''Server has started with process '' @ pid p)) p))
       \<lparr>listen_called := True\<rparr>"

text \<open>The callback given to \<^verbatim>\<open>httpServer.listen\<close>.\<close>

definition listen_callback :: "proc \<Rightarrow> proc" where
  "listen_callback p =
     (emit (LogInfo SetupServer ''Server running on port: 6000'') p)\<lparr>listening := True\<rparr>"

text \<open>\<^verbatim>\<open>startServer\<close> up to its \<^verbatim>\<open>await\<close>, the rest of its \<^verbatim>\<open>try\<close> block, and its
  \<^verbatim>\<open>catch\<close> block.\<close>

definition startServer :: "proc \<Rightarrow> proc" where
  "startServer p = createSocketIO (emit NewHttpServer p)"

definition startServer_resume :: "io_server \<Rightarrow> proc \<Rightarrow> proc" where
  "startServer_resume io p =
     (let io' = socketIOConnections io
      in startHttpServer (p\<lparr>socketIO := Resolved io'\<rparr>))"

definition startServer_catch :: "jserror \<Rightarrow> proc \<Rightarrow> proc" where
  "startServer_catch error p = emit (LogError SetupServer None error) p"

definition start :: "externals \<Rightarrow> proc \<Rightarrow> proc" where
  "start ext p =
     startServer
       (globalErrorHandler ext
         (routeMiddleware ext
           (standardMiddleware ext
             (securityMiddleware ext p))))"

subsection \<open>app.ts\<close>

definition loadConfig :: "proc \<Rightarrow> proc" where
  "loadConfig p = emit ValidateConfig p"

definition initialize :: "config \<Rightarrow> string \<Rightarrow> externals \<Rightarrow> proc" where
  "initialize c i ext =
     start ext (emit Express (databaseConnection (loadConfig (init_proc c i))))"

subsection \<open>The events of the runtime\<close>

text \<open>What the runtime delivers to the process after \<^verbatim>\<open>initialize\<close> has returned: a
  pending \<^verbatim>\<open>mongoose.connect\<close> settles (\<open>None\<close>: fulfilled), the driver emits
  \<^verbatim>\<open>disconnected\<close>, the \<^verbatim>\<open>connect()\<close> of one redis client settles, the http server is
  listening.\<close>

datatype event =
    MongoSettled "jserror option"
  | Disconnected
  | ClientSettled role "jserror option"
  | Listening

definition conn :: "proc \<Rightarrow> role \<Rightarrow> promise" where
  "conn p r = (case r of Pub \<Rightarrow> pub_conn p | Sub \<Rightarrow> sub_conn p)"

definition set_conn :: "role \<Rightarrow> promise \<Rightarrow> proc \<Rightarrow> proc" where
  "set_conn r s p = (case r of Pub \<Rightarrow> p\<lparr>pub_conn := s\<rparr> | Sub \<Rightarrow> p\<lparr>sub_conn := s\<rparr>)"

text \<open>\<^verbatim>\<open>Promise.all\<close> over the two promises: rejected with the first rejection,
  fulfilled once both are fulfilled, and settled once only.\<close>

definition promise_all :: "proc \<Rightarrow> proc" where
  "promise_all p =
     (case socketIO p of
        Awaiting io pubClient subClient \<Rightarrow>
          (case (pub_conn p, sub_conn p) of
             (Rejected e, _) \<Rightarrow> startServer_catch e (p\<lparr>socketIO := RejectedWith e\<rparr>)
           | (_, Rejected e) \<Rightarrow> startServer_catch e (p\<lparr>socketIO := RejectedWith e\<rparr>)
           | (Fulfilled, Fulfilled) \<Rightarrow>
               (let (io', p') = createSocketIO_resume io pubClient subClient p
                in startServer_resume io' p')
           | _ \<Rightarrow> p)
      | _ \<Rightarrow> p)"

definition step :: "proc \<Rightarrow> event \<Rightarrow> proc" where
  "step p ev =
     (if exit_code p \<noteq> None then p
      else case ev of
        MongoSettled r \<Rightarrow>
          (if db_pending p = 0 then p
           else let p' = p\<lparr>db_pending := db_pending p - 1\<rparr>
                in (case r of None \<Rightarrow> connect_then p' | Some e \<Rightarrow> connect_catch e p'))
      | Disconnected \<Rightarrow>
          (if disconnected_listeners p = 0 then p else connect p)
      | ClientSettled r res \<Rightarrow>
          (if conn p r \<noteq> Pending then p
           else promise_all
                  (set_conn r (case res of None \<Rightarrow> Fulfilled | Some e \<Rightarrow> Rejected e) p))
      | Listening \<Rightarrow>
          (if listen_called p \<and> \<not> listening p then listen_callback p else p))"

definition run :: "proc \<Rightarrow> event list \<Rightarrow> proc" where
  "run p evs = foldl step p evs"

subsection \<open>A request to the http server\<close>



section \<open>Notions used in the statements\<close>

text \<open>The two actions that end the startup: attaching the adapter and binding the
  listener.\<close>

definition is_late :: "action \<Rightarrow> bool" where
  "is_late a = (case a of IoAdapter _ _ \<Rightarrow> True | HttpListen _ \<Rightarrow> True | _ \<Rightarrow> False)"

text \<open>The storage connection in the trace: the attempts issued
  (\<^verbatim>\<open>mongoose.connect\<close>), and the outcomes logged by the logger of \<^verbatim>\<open>setupDatabase\<close>.\<close>

definition is_attempt :: "action \<Rightarrow> bool" where
  "is_attempt a = (case a of MongooseConnect _ \<Rightarrow> True | _ \<Rightarrow> False)"

definition is_db_success :: "action \<Rightarrow> bool" where
  "is_db_success a = (case a of LogInfo SetupDatabase _ \<Rightarrow> True | _ \<Rightarrow> False)"

definition is_db_failure :: "action \<Rightarrow> bool" where
  "is_db_failure a = (case a of LogError SetupDatabase _ _ \<Rightarrow> True | _ \<Rightarrow> False)"

definition db_attempts :: "proc \<Rightarrow> nat" where
  "db_attempts p = length (filter is_attempt (trace p))"

definition db_successes :: "proc \<Rightarrow> nat" where
  "db_successes p = length (filter is_db_success (trace p))"

definition db_failures :: "proc \<Rightarrow> nat" where
  "db_failures p = length (filter is_db_failure (trace p))"

text \<open>What holds of the process in every state that a run reaches after \<^verbatim>\<open>initialize\<close>,
  by the state of the promise of \<^verbatim>\<open>createSocketIO\<close>.\<close>

definition wf :: "config \<Rightarrow> proc \<Rightarrow> bool" where
  "wf c p \<longleftrightarrow>
     cfg p = c \<and> disconnected_listeners p = 1 \<and>
     (case socketIO p of
        NotCalled \<Rightarrow> False
      | Awaiting io a b \<Rightarrow>
          io = \<lparr>cors_origin = CLIENT_URL c, adapter = None, connection_listeners = []\<rparr> \<and>
          a = \<lparr>handle = 0, url = REDIS_HOST c\<rparr> \<and> b = \<lparr>handle = 1, url = REDIS_HOST c\<rparr> \<and>
          (pub_conn p = Pending \<or> pub_conn p = Fulfilled) \<and>
          (sub_conn p = Pending \<or> sub_conn p = Fulfilled) \<and>
          (pub_conn p = Pending \<or> sub_conn p = Pending) \<and>
          filter is_late (trace p) = [] \<and> \<not> listen_called p
      | Resolved io \<Rightarrow>
          io = \<lparr>cors_origin = CLIENT_URL c,
                adapter = Some (\<lparr>handle = 0, url = REDIS_HOST c\<rparr>, \<lparr>handle = 1, url = REDIS_HOST c\<rparr>),
                connection_listeners = []\<rparr> \<and>
          pub_conn p = Fulfilled \<and> sub_conn p = Fulfilled \<and>
          filter is_late (trace p) = [IoAdapter 0 1, HttpListen SERVER_PORT] \<and> listen_called p
      | RejectedWith e \<Rightarrow>
          (pub_conn p = Rejected e \<or> sub_conn p = Rejected e) \<and>
          (pub_conn p \<noteq> Unstarted) \<and> (sub_conn p \<noteq> Unstarted) \<and>
          LogError SetupServer None e \<in> set (trace p) \<and>
          filter is_late (trace p) = [] \<and> \<not> listen_called p)"





text \<open>The first time the \<^verbatim>\<open>connect()\<close> of a redis client settles in a sequence of events,
  and how.\<close>

fun first_settlement :: "role \<Rightarrow> event list \<Rightarrow> jserror option option" where
  "first_settlement r [] = None"
| "first_settlement r (ClientSettled r' res # evs) =
     (if r' = r then Some res else first_settlement r evs)"
| "first_settlement r (MongoSettled res # evs) = first_settlement r evs"
| "first_settlement r (Disconnected # evs) = first_settlement r evs"
| "first_settlement r (Listening # evs) = first_settlement r evs"

text \<open>A configuration, a set of middleware with one route, and the process started with
  them, for the examples. The decoder of the examples returns a string without \<^verbatim>\<open>%\<close> as
  it is, as the built-in does, and fails on every other string; the examples use no
  path with \<^verbatim>\<open>%\<close>.\<close>

definition demo_config :: config where
  "demo_config =
     \<lparr>DATABASE_URL = ''mongodb://localhost:27017/chatty'',
      REDIS_HOST = ''redis://localhost:6379'',
      CLIENT_URL = ''http://localhost:3000''\<rparr>"

definition pass_on :: handler where
  "pass_on req x = (x, Next None)"

definition demo_signup :: handler where
  "demo_signup req x =
     (case res_json req (JStr ''ok'') (res_status 200 x) of
        Inl thrown \<Rightarrow> (res_status 200 x, Throw thrown)
      | Inr x' \<Rightarrow> (x', Stop))"

definition demo_externals :: externals where
  "demo_externals =
     \<lparr>cookieSession = pass_on, hpp = pass_on, helmet = pass_on,
      compression = pass_on, json_parser = pass_on, urlencoded = pass_on,
      aplicationRoutes =
        [Route (\<lambda>req. if pathname (originalUrl req) = ''/api/v1/signup''
                       then Matches else NoMatch)
           demo_signup],
      decodeURIComponent = (\<lambda>u. if CHR ''%'' \<in> set u then None else Some u)\<rparr>"

definition demo_request :: "string \<Rightarrow> string \<Rightarrow> request" where
  "demo_request m u = \<lparr>req_method = m, originalUrl = u, validators_match = (\<lambda>b. False)\<rparr>"

definition demo_boot :: proc where
  "demo_boot = initialize demo_config ''4242'' demo_externals"


section \<open>Unfolding rules\<close>

lemmas boot_defs =
  initialize_def start_def startServer_def createSocketIO_def createClient_def duplicate_def
  globalErrorHandler_def routeMiddleware_def standardMiddleware_def securityMiddleware_def
  app_use_def databaseConnection_def loadConfig_def init_proc_def connect_def emit_def

lemmas step_defs =
  step_def promise_all_def set_conn_def conn_def connect_def connect_then_def connect_catch_def
  process_exit_def emit_def createSocketIO_resume_def startServer_resume_def
  startServer_catch_def startHttpServer_def listen_callback_def socketIOConnections_def

lemmas count_defs =
  db_attempts_def db_successes_def db_failures_def is_attempt_def is_db_success_def
  is_db_failure_def

lemmas demo_defs = demo_boot_def demo_config_def demo_externals_def

lemmas eval_defs = run_def boot_defs step_defs Let_def SERVER_PORT_def

section \<open>Runs and the reachable states\<close>

lemma wf_initialize: "wf c (initialize c i ext)"
  by (simp add: wf_def boot_defs Let_def is_late_def)

lemma wf_step_mongo: "wf c p \<Longrightarrow> wf c (step p (MongoSettled r))"
  by (cases r; cases "socketIO p")
     (simp_all add: wf_def step_def connect_then_def connect_catch_def process_exit_def emit_def Let_def is_late_def)

lemma wf_step_disc: "wf c p \<Longrightarrow> wf c (step p Disconnected)"
  by (cases "socketIO p")
     (simp_all add: wf_def step_def connect_def emit_def Let_def is_late_def)

lemma wf_step_listening: "wf c p \<Longrightarrow> wf c (step p Listening)"
  by (cases "socketIO p")
     (simp_all add: wf_def step_def listen_callback_def emit_def Let_def is_late_def)

lemma wf_step_client: "wf c p \<Longrightarrow> wf c (step p (ClientSettled r res))"
  by (cases r; cases res; cases "socketIO p"; cases "pub_conn p"; cases "sub_conn p")
     (simp_all add: wf_def step_defs Let_def is_late_def)

lemma wf_step: "wf c p \<Longrightarrow> wf c (step p ev)"
  by (cases ev) (simp_all add: wf_step_mongo wf_step_disc wf_step_listening wf_step_client)

lemma run_snoc: "run p (evs @ [ev]) = step (run p evs) ev"
  by (simp add: run_def)

lemma run_Cons: "run p (ev # evs) = run (step p ev) evs"
  by (simp add: run_def)

lemma run_Nil: "run p [] = p"
  by (simp add: run_def)

lemma run_append: "run p (xs @ ys) = run (run p xs) ys"
  by (simp add: run_def)

lemma wf_run: "wf c p \<Longrightarrow> wf c (run p evs)"
  by (induction evs arbitrary: p) (simp_all add: run_Nil run_Cons wf_step)

lemma step_exited: "exit_code p = Some k \<Longrightarrow> step p ev = p"
  by (simp add: step_def)

lemma run_exited: "exit_code p = Some k \<Longrightarrow> run p evs = p"
  by (induction evs) (simp_all add: run_Nil run_Cons step_exited)

section \<open>The storage connection in a run\<close>


lemma promise_all_trace_db:
  "filter is_attempt (trace (promise_all p)) = filter is_attempt (trace p) \<and>
   filter is_db_success (trace (promise_all p)) = filter is_db_success (trace p) \<and>
   filter is_db_failure (trace (promise_all p)) = filter is_db_failure (trace p) \<and>
   db_pending (promise_all p) = db_pending p \<and>
   exit_code (promise_all p) = exit_code p \<and>
   disconnected_listeners (promise_all p) = disconnected_listeners p"
  by (cases "socketIO p"; cases "pub_conn p"; cases "sub_conn p")
     (simp_all add: promise_all_def startServer_catch_def createSocketIO_resume_def
        startServer_resume_def startHttpServer_def socketIOConnections_def emit_def Let_def
        is_attempt_def is_db_success_def is_db_failure_def)

lemma set_conn_fields:
  "trace (set_conn r s p) = trace p" "db_pending (set_conn r s p) = db_pending p"
  "exit_code (set_conn r s p) = exit_code p"
  "disconnected_listeners (set_conn r s p) = disconnected_listeners p"
  by (cases r; simp add: set_conn_def)+







lemma step_mongo_failure:
  "exit_code p = None \<Longrightarrow> db_pending p \<noteq> 0 \<Longrightarrow>
   trace (step p (MongoSettled (Some e))) =
     trace p @ [LogError SetupDatabase (Some ''Error connecting to database'') e, ProcessExit 1] \<and>
   exit_code (step p (MongoSettled (Some e))) = Some 1"
  by (simp add: step_def connect_catch_def process_exit_def emit_def Let_def)


section \<open>The bridge and the listener in a run\<close>

lemma promise_all_conn:
  "pub_conn (promise_all p) = pub_conn p \<and> sub_conn (promise_all p) = sub_conn p \<and>
   cfg (promise_all p) = cfg p \<and> app (promise_all p) = app p"
  by (cases "socketIO p"; cases "pub_conn p"; cases "sub_conn p")
     (simp_all add: promise_all_def startServer_catch_def createSocketIO_resume_def
        startServer_resume_def startHttpServer_def socketIOConnections_def emit_def Let_def)

lemma step_app: "app (step p ev) = app p"
  by (cases ev)
     (auto simp: step_def connect_def connect_then_def connect_catch_def process_exit_def
        emit_def listen_callback_def promise_all_conn set_conn_def Let_def
        split: option.splits role.splits)

lemma run_app: "app (run p evs) = app p"
  by (induction evs arbitrary: p) (simp_all add: run_Nil run_Cons step_app)

lemma step_not_mongo:
  "\<forall>r. ev \<noteq> MongoSettled r \<Longrightarrow>
   exit_code (step p ev) = exit_code p \<and> db_pending p \<le> db_pending (step p ev)"
  by (cases ev)
     (auto simp: step_def connect_def emit_def listen_callback_def promise_all_trace_db
        set_conn_fields)

lemma run_not_mongo:
  "\<forall>r. MongoSettled r \<notin> set evs \<Longrightarrow>
   exit_code (run p evs) = exit_code p \<and> db_pending p \<le> db_pending (run p evs)"
proof (induction evs arbitrary: p)
  case Nil
  then show ?case by (simp add: run_Nil)
next
  case (Cons ev evs)
  then have a: "\<forall>r. ev \<noteq> MongoSettled r" and b: "\<forall>r. MongoSettled r \<notin> set evs"
    by auto
  from step_not_mongo [OF a, of p] Cons.IH [OF b, of "step p ev"]
  show ?case by (simp add: run_Cons)
qed

lemma step_not_mongo_failure:
  "\<forall>e. ev \<noteq> MongoSettled (Some e) \<Longrightarrow> exit_code (step p ev) = exit_code p"
  by (cases ev)
     (auto simp: step_def connect_def connect_then_def emit_def listen_callback_def
        promise_all_trace_db set_conn_fields Let_def split: option.splits)

lemma run_not_mongo_failure:
  "\<forall>e. MongoSettled (Some e) \<notin> set evs \<Longrightarrow> exit_code (run p evs) = exit_code p"
proof (induction evs arbitrary: p)
  case Nil
  then show ?case by (simp add: run_Nil)
next
  case (Cons ev evs)
  then have a: "\<forall>e. ev \<noteq> MongoSettled (Some e)" and b: "\<forall>e. MongoSettled (Some e) \<notin> set evs"
    by auto
  from step_not_mongo_failure [OF a, of p] Cons.IH [OF b, of "step p ev"]
  show ?case by (simp add: run_Cons)
qed

lemma step_fulfilled:
  "conn (step p ev) r = Fulfilled \<Longrightarrow> conn p r = Fulfilled \<or> ev = ClientSettled r None"
  by (cases ev; cases r)
     (auto simp: step_def conn_def set_conn_def connect_def connect_then_def connect_catch_def
        process_exit_def emit_def listen_callback_def promise_all_conn Let_def
        split: option.splits role.splits if_splits)

lemma run_fulfilled:
  "conn (run p evs) r = Fulfilled \<Longrightarrow> conn p r = Fulfilled \<or> ClientSettled r None \<in> set evs"
proof (induction evs rule: rev_induct)
  case Nil
  then show ?case by (simp add: run_Nil)
next
  case (snoc ev evs)
  from snoc.prems have "conn (run p evs) r = Fulfilled \<or> ev = ClientSettled r None"
    by (simp add: run_snoc step_fulfilled)
  with snoc.IH show ?case by auto
qed

lemma wf_listen:
  assumes "wf c p" and "HttpListen n \<in> set (trace p)"
  shows "pub_conn p = Fulfilled \<and> sub_conn p = Fulfilled"
proof -
  from assms(2) have "HttpListen n \<in> set (filter is_late (trace p))"
    by (simp add: is_late_def)
  with assms(1) show ?thesis
    by (cases "socketIO p") (auto simp: wf_def)
qed

lemma initialize_fields:
  "exit_code (initialize c i ext) = None" "db_pending (initialize c i ext) = 1"
  "pub_conn (initialize c i ext) = Pending" "sub_conn (initialize c i ext) = Pending"
  "disconnected_listeners (initialize c i ext) = 1"
  by (simp_all add: boot_defs Let_def)

lemma initialize_trace:
  "trace (initialize c i ext) =
     [ValidateConfig, MongooseConnect (DATABASE_URL c), OnDisconnected, Express,
      AppUse ''cookieSession'', AppUse ''hpp'', AppUse ''helmet'', AppUse ''cors'',
      AppUse ''compression'', AppUse ''json'', AppUse ''urlencoded'', ApplicationRoutes,
      AppAll ''*'', AppUseErrorHandler, NewHttpServer, NewSocketIO (CLIENT_URL c),
      CreateClient 0 (REDIS_HOST c), Duplicate 0 1, ClientConnect 0, ClientConnect 1]"
  by (simp add: boot_defs Let_def)

lemma initialize_app:
  "app (initialize c i ext) =
     [Use (cookieSession ext), Use (hpp ext), Use (helmet ext), Use (cors (CLIENT_URL c)),
      Use (compression ext), Use (json_parser ext), Use (urlencoded ext)] @
     aplicationRoutes ext @
     [Route (match_star ext) globalErrorHandler_notFound, UseError globalErrorHandler_onError]"
  by (simp add: boot_defs Let_def)

lemma step_trace_extends: "\<exists>r. trace (step p ev) = trace p @ r"
proof (cases ev)
  case (ClientSettled r res)
  have "\<exists>t. trace (promise_all q) = trace q @ t" for q
    by (cases "socketIO q"; cases "pub_conn q"; cases "sub_conn q")
       (simp_all add: promise_all_def startServer_catch_def createSocketIO_resume_def
          startServer_resume_def startHttpServer_def socketIOConnections_def emit_def Let_def)
  from this [of "set_conn r (case res of None \<Rightarrow> Fulfilled | Some e \<Rightarrow> Rejected e) p"]
  show ?thesis using ClientSettled by (auto simp: step_def set_conn_fields)
qed (auto simp: step_def connect_def connect_then_def connect_catch_def process_exit_def
        emit_def listen_callback_def Let_def split: option.splits)

lemma run_trace_extends: "\<exists>r. trace (run p evs) = trace p @ r"
proof (induction evs arbitrary: p)
  case Nil
  then show ?case by (simp add: run_Nil)
next
  case (Cons ev evs)
  obtain r1 where r1: "trace (step p ev) = trace p @ r1"
    using step_trace_extends by blast
  obtain r2 where "trace (run (step p ev) evs) = trace (step p ev) @ r2"
    using Cons.IH by blast
  with r1 show ?case by (simp add: run_Cons)
qed

lemma step_client_failure:
  assumes "wf c p" and "exit_code p = None" and "socketIO p = Awaiting io a b"
    and "conn p r = Pending"
  shows "trace (step p (ClientSettled r (Some e))) = trace p @ [LogError SetupServer None e] \<and>
         socketIO (step p (ClientSettled r (Some e))) = RejectedWith e \<and>
         exit_code (step p (ClientSettled r (Some e))) = None"
  using assms
  by (cases r; cases "pub_conn p"; cases "sub_conn p")
     (simp_all add: wf_def step_def conn_def set_conn_def promise_all_def startServer_catch_def
        emit_def)

lemma step_rejected_stable:
  "socketIO p = RejectedWith e \<Longrightarrow> socketIO (step p ev) = RejectedWith e"
  by (cases ev)
     (auto simp: step_def conn_def set_conn_def promise_all_def connect_def connect_then_def
        connect_catch_def process_exit_def emit_def listen_callback_def Let_def
        split: option.splits role.splits)

lemma run_rejected_stable:
  "socketIO p = RejectedWith e \<Longrightarrow> socketIO (run p evs) = RejectedWith e"
  by (induction evs arbitrary: p) (simp_all add: run_Nil run_Cons step_rejected_stable)

lemma wf_rejected:
  assumes "wf c p" and "socketIO p = RejectedWith e"
  shows "(\<forall>x y. IoAdapter x y \<notin> set (trace p)) \<and> (\<forall>n. HttpListen n \<notin> set (trace p)) \<and>
         \<not> listen_called p \<and> LogError SetupServer None e \<in> set (trace p)"
proof -
  from assms have empty: "filter is_late (trace p) = []" and rest: "\<not> listen_called p"
      "LogError SetupServer None e \<in> set (trace p)"
    by (simp_all add: wf_def)
  have late: "a \<in> set (trace p) \<Longrightarrow> \<not> is_late a" for a
    using empty by (simp add: filter_empty_conv)
  have "IoAdapter x y \<notin> set (trace p)" for x y
    using late [of "IoAdapter x y"] by (auto simp: is_late_def)
  moreover have "HttpListen n \<notin> set (trace p)" for n
    using late [of "HttpListen n"] by (auto simp: is_late_def)
  ultimately show ?thesis using rest by blast
qed

lemma wf_adapter:
  assumes "wf c p"
  shows "(\<exists>x y. IoAdapter x y \<in> set (trace p)) = (\<exists>io. socketIO p = Resolved io)"
proof (cases "\<exists>io. socketIO p = Resolved io")
  case True
  then obtain io where "socketIO p = Resolved io" by blast
  with assms have "filter is_late (trace p) = [IoAdapter 0 1, HttpListen SERVER_PORT]"
    by (simp add: wf_def)
  then have "IoAdapter 0 1 \<in> set (filter is_late (trace p))"
    by simp
  then have "IoAdapter 0 1 \<in> set (trace p)"
    by simp
  with True show ?thesis by blast
next
  case False
  with assms have empty: "filter is_late (trace p) = []"
    by (cases "socketIO p") (simp_all add: wf_def)
  have "IoAdapter x y \<notin> set (trace p)" for x y
  proof
    assume "IoAdapter x y \<in> set (trace p)"
    then have "IoAdapter x y \<in> set (filter is_late (trace p))"
      by (simp add: is_late_def)
    with empty show False by simp
  qed
  with False show ?thesis by blast
qed

section \<open>Requests through the stack\<close>




section \<open>When the connections of the bridge settle\<close>


lemma conn_promise_all: "conn (promise_all p) r = conn p r"
  by (cases r) (simp_all add: conn_def promise_all_conn)

lemma step_conn_settled: "conn p r \<noteq> Pending \<Longrightarrow> conn (step p ev) r = conn p r"
  by (cases ev; cases r)
     (auto simp: step_def conn_def set_conn_def connect_def connect_then_def connect_catch_def
        process_exit_def emit_def listen_callback_def promise_all_conn Let_def
        split: option.splits role.splits)

lemma run_conn_settled: "conn p r \<noteq> Pending \<Longrightarrow> conn (run p evs) r = conn p r"
  by (induction evs arbitrary: p) (simp_all add: run_Nil run_Cons step_conn_settled)

lemma step_conn_settle:
  "exit_code p = None \<Longrightarrow> conn p r = Pending \<Longrightarrow>
   conn (step p (ClientSettled r res)) r = (case res of None \<Rightarrow> Fulfilled | Some e \<Rightarrow> Rejected e)"
  by (cases r; cases res)
     (simp_all add: step_def conn_promise_all, simp_all add: conn_def set_conn_def)

lemma step_conn_other:
  "\<forall>res. ev \<noteq> ClientSettled r res \<Longrightarrow> conn (step p ev) r = conn p r"
  by (cases ev; cases r)
     (auto simp: step_def conn_def set_conn_def connect_def connect_then_def connect_catch_def
        process_exit_def emit_def listen_callback_def promise_all_conn Let_def
        split: option.splits role.splits)

lemma run_first_settlement:
  "exit_code p = None \<Longrightarrow> \<forall>res. MongoSettled res \<notin> set evs \<Longrightarrow> conn p r = Pending \<Longrightarrow>
   conn (run p evs) r =
     (case first_settlement r evs of None \<Rightarrow> Pending | Some None \<Rightarrow> Fulfilled
      | Some (Some e) \<Rightarrow> Rejected e)"
proof (induction evs arbitrary: p)
  case Nil
  then show ?case by (simp add: run_Nil)
next
  case (Cons ev evs)
  from Cons.prems(2) have nm: "\<forall>res. ev \<noteq> MongoSettled res"
    and rest: "\<forall>res. MongoSettled res \<notin> set evs"
    by auto
  have alive: "exit_code (step p ev) = None"
    using step_not_mongo [OF nm, of p] Cons.prems(1) by simp
  show ?case
  proof (cases "\<exists>res. ev = ClientSettled r res")
    case True
    then obtain res where ev: "ev = ClientSettled r res" by blast
    have now: "conn (step p ev) r = (case res of None \<Rightarrow> Fulfilled | Some e \<Rightarrow> Rejected e)"
      unfolding ev by (rule step_conn_settle) (rule Cons.prems)+
    then have "conn (step p ev) r \<noteq> Pending"
      by (simp split: option.splits)
    from run_conn_settled [OF this] now show ?thesis
      by (simp add: run_Cons ev split: option.splits)
  next
    case False
    then have other: "\<forall>res. ev \<noteq> ClientSettled r res" by blast
    then have same: "conn (step p ev) r = Pending"
      using step_conn_other [of ev r p] Cons.prems(3) by simp
    have "first_settlement r (ev # evs) = first_settlement r evs"
      using other by (cases ev) auto
    with Cons.IH [OF alive rest same] show ?thesis
      by (simp add: run_Cons)
  qed
qed

lemma wf_listen_iff:
  assumes "wf c p"
  shows "(HttpListen SERVER_PORT \<in> set (trace p)) = (pub_conn p = Fulfilled \<and> sub_conn p = Fulfilled)"
proof
  assume "HttpListen SERVER_PORT \<in> set (trace p)"
  with assms show "pub_conn p = Fulfilled \<and> sub_conn p = Fulfilled"
    by (rule wf_listen)
next
  assume both: "pub_conn p = Fulfilled \<and> sub_conn p = Fulfilled"
  with assms have "filter is_late (trace p) = [IoAdapter 0 1, HttpListen SERVER_PORT]"
    by (cases "socketIO p") (auto simp: wf_def)
  then have "HttpListen SERVER_PORT \<in> set (filter is_late (trace p))"
    by simp
  then show "HttpListen SERVER_PORT \<in> set (trace p)"
    by simp
qed

section \<open>The claims\<close>




text \<open>
  Claim C2. \<^verbatim>\<open>createSocketIO\<close> calls \<^verbatim>\<open>connect()\<close> on both clients before it suspends, so
  both connections are pending at once. In every run its promise is fulfilled exactly
  when both connections have succeeded and rejected exactly when one of them has
  failed, and the adapter is created and attached (\<^verbatim>\<open>io.adapter(createAdapter(...))\<close>)
  exactly when both have succeeded: there is no adapter over one connection.
\<close>

theorem bridge_all_or_nothing:
  "(\<exists>rest. trace (initialize c i ext) = rest @ [ClientConnect 0, ClientConnect 1]) \<and>
   pub_conn (initialize c i ext) = Pending \<and> sub_conn (initialize c i ext) = Pending \<and>
   (\<exists>io. socketIO (run (initialize c i ext) evs) = Resolved io) =
     (pub_conn (run (initialize c i ext) evs) = Fulfilled \<and>
      sub_conn (run (initialize c i ext) evs) = Fulfilled) \<and>
   (\<exists>e. socketIO (run (initialize c i ext) evs) = RejectedWith e) =
     ((\<exists>e. pub_conn (run (initialize c i ext) evs) = Rejected e) \<or>
      (\<exists>e. sub_conn (run (initialize c i ext) evs) = Rejected e)) \<and>
   (\<exists>x y. IoAdapter x y \<in> set (trace (run (initialize c i ext) evs))) =
     (pub_conn (run (initialize c i ext) evs) = Fulfilled \<and>
      sub_conn (run (initialize c i ext) evs) = Fulfilled)"
proof -
  define p where "p = run (initialize c i ext) evs"
  have wfp: "wf c p"
    unfolding p_def by (rule wf_run) (rule wf_initialize)
  have res: "(\<exists>io. socketIO p = Resolved io) = (pub_conn p = Fulfilled \<and> sub_conn p = Fulfilled)"
    using wfp by (cases "socketIO p") (auto simp: wf_def)
  have rej: "(\<exists>e. socketIO p = RejectedWith e) =
      ((\<exists>e. pub_conn p = Rejected e) \<or> (\<exists>e. sub_conn p = Rejected e))"
    using wfp by (cases "socketIO p") (auto simp: wf_def)
  have both: "\<exists>rest. trace (initialize c i ext) = rest @ [ClientConnect 0, ClientConnect 1]"
    by (simp add: initialize_trace)
  show ?thesis
    unfolding p_def [symmetric] using both res rej wf_adapter [OF wfp]
    by (simp add: initialize_fields)
qed

text \<open>
  Both connections succeed, the subscribing one first: the setup is fulfilled and the
  adapter attached.
\<close>

theorem bridge_all_or_nothing_witness:
  "(\<exists>io. socketIO (run demo_boot [ClientSettled Sub None, ClientSettled Pub None]) = Resolved io) \<and>
   (\<exists>x y. IoAdapter x y \<in> set (trace (run demo_boot [ClientSettled Sub None, ClientSettled Pub None])))"
proof -
  have "pub_conn (run demo_boot [ClientSettled Sub None, ClientSettled Pub None]) = Fulfilled \<and>
        sub_conn (run demo_boot [ClientSettled Sub None, ClientSettled Pub None]) = Fulfilled"
    by (simp add: demo_defs eval_defs)
  with bridge_all_or_nothing [of demo_config "''4242''" demo_externals
      "[ClientSettled Sub None, ClientSettled Pub None]"]
  show ?thesis unfolding demo_boot_def [symmetric] by simp
qed

text \<open>
  Claim C3, as the code has it. \<^verbatim>\<open>databaseConnection()\<close> is called and not awaited, and
  the server is started in the same turn. When the first \<^verbatim>\<open>mongoose.connect\<close> is rejected
  (no attempt has settled before), the process logs the error and exits with code 1,
  and nothing happens after that, whatever the runtime delivers. The listener is bound
  in such a run exactly when, before the rejection arrived, the \<^verbatim>\<open>connect()\<close> of each
  redis client had settled and had settled with success; in every other case it is
  never bound.
\<close>

theorem initial_connect_failure:
  assumes "\<forall>r. MongoSettled r \<notin> set evs1"
  shows "exit_code (run (initialize c i ext) (evs1 @ MongoSettled (Some e) # evs2)) = Some 1 \<and>
         trace (run (initialize c i ext) (evs1 @ MongoSettled (Some e) # evs2)) =
           trace (run (initialize c i ext) evs1) @
             [LogError SetupDatabase (Some ''Error connecting to database'') e, ProcessExit 1] \<and>
         (HttpListen SERVER_PORT \<in> set (trace (run (initialize c i ext) (evs1 @ MongoSettled (Some e) # evs2)))
            \<longrightarrow> ClientSettled Pub None \<in> set evs1 \<and> ClientSettled Sub None \<in> set evs1) \<and>
         (HttpListen SERVER_PORT \<in> set (trace (run (initialize c i ext) (evs1 @ MongoSettled (Some e) # evs2)))) =
           (first_settlement Pub evs1 = Some None \<and> first_settlement Sub evs1 = Some None)"
proof -
  define p1 where "p1 = run (initialize c i ext) evs1"
  define p2 where "p2 = step p1 (MongoSettled (Some e))"
  have alive: "exit_code p1 = None" and pending: "db_pending p1 \<noteq> 0"
    using run_not_mongo [OF assms, of "initialize c i ext"]
    by (simp_all add: p1_def initialize_fields)
  have p2: "trace p2 = trace p1 @
      [LogError SetupDatabase (Some ''Error connecting to database'') e, ProcessExit 1]"
    "exit_code p2 = Some 1"
    using step_mongo_failure [OF alive pending, of e] by (simp_all add: p2_def)
  have final: "run (initialize c i ext) (evs1 @ MongoSettled (Some e) # evs2) = p2"
    by (simp add: run_append run_Cons p1_def [symmetric] p2_def [symmetric] run_exited [OF p2(2)])
  have wf1: "wf c p1"
    unfolding p1_def by (rule wf_run) (rule wf_initialize)
  have listen: "(HttpListen SERVER_PORT \<in> set (trace p2)) =
      (conn p1 Pub = Fulfilled \<and> conn p1 Sub = Fulfilled)"
    using wf_listen_iff [OF wf1] by (simp add: p2 conn_def)
  have settled: "(conn p1 r = Fulfilled) = (first_settlement r evs1 = Some None)" for r
  proof -
    have "conn (initialize c i ext) r = Pending"
      by (cases r) (simp_all add: conn_def initialize_fields)
    from run_first_settlement [OF _ assms this]
    have "conn p1 r =
        (case first_settlement r evs1 of None \<Rightarrow> Pending | Some None \<Rightarrow> Fulfilled
         | Some (Some e') \<Rightarrow> Rejected e')"
      by (simp add: p1_def initialize_fields)
    then show ?thesis
      by (simp split: option.splits)
  qed
  have events: "ClientSettled Pub None \<in> set evs1 \<and> ClientSettled Sub None \<in> set evs1"
    if "HttpListen SERVER_PORT \<in> set (trace p2)"
  proof -
    from that listen have "conn p1 Pub = Fulfilled" "conn p1 Sub = Fulfilled"
      by simp_all
    from run_fulfilled [OF this(1) [unfolded p1_def]] run_fulfilled [OF this(2) [unfolded p1_def]]
    show ?thesis by (simp add: conn_def initialize_fields)
  qed
  from p2 events listen settled show ?thesis
    unfolding final p1_def [symmetric] by blast
qed

text \<open>
  The publishing client connects and a \<^verbatim>\<open>disconnected\<close> event arrives before the first
  attempt is rejected: exit code 1, and the listener is never bound.
\<close>

theorem initial_connect_failure_witness:
  "(\<forall>r. MongoSettled r \<notin> set [ClientSettled Pub None, Disconnected]) \<and>
   exit_code (run demo_boot
     ([ClientSettled Pub None, Disconnected] @
      MongoSettled (Some (OtherError ''down'')) # [ClientSettled Sub None, Listening])) = Some 1 \<and>
   HttpListen SERVER_PORT \<notin> set (trace (run demo_boot
     ([ClientSettled Pub None, Disconnected] @
      MongoSettled (Some (OtherError ''down'')) # [ClientSettled Sub None, Listening])))"
proof -
  have h: "\<forall>r. MongoSettled r \<notin> set [ClientSettled Pub None, Disconnected]"
    by simp
  from initial_connect_failure [OF h, of demo_config "''4242''" demo_externals
      "OtherError ''down''" "[ClientSettled Sub None, Listening]"]
  show ?thesis using h unfolding demo_boot_def [symmetric] by auto
qed

text \<open>
  Claim C3 as stated fails: both redis clients connect and the server listens before
  the first \<^verbatim>\<open>mongoose.connect\<close> is rejected. The process exits with code 1, after the
  listener was bound.
\<close>

theorem listener_bound_before_connect_failure:
  "HttpListen SERVER_PORT \<in> set (trace (run demo_boot
     [ClientSettled Pub None, ClientSettled Sub None, Listening,
      MongoSettled (Some (OtherError ''down''))])) \<and>
   listening (run demo_boot
     [ClientSettled Pub None, ClientSettled Sub None, Listening,
      MongoSettled (Some (OtherError ''down''))]) \<and>
   exit_code (run demo_boot
     [ClientSettled Pub None, ClientSettled Sub None, Listening,
      MongoSettled (Some (OtherError ''down''))]) = Some 1"
  by (simp add: demo_defs eval_defs)

text \<open>
  Claim C4. While the process is running and \<^verbatim>\<open>createSocketIO\<close> is suspended at its
  \<^verbatim>\<open>await\<close>, the rejection of either client's \<^verbatim>\<open>connect()\<close> makes \<^verbatim>\<open>startServer\<close> log the
  error, and nothing else: the process keeps running. Whatever follows, the adapter is
  never attached and \<^verbatim>\<open>httpServer.listen\<close> is never called, and the process exits only if
  a storage connect attempt fails.
\<close>

theorem broker_failure:
  assumes "exit_code (run (initialize c i ext) evs1) = None"
    and "socketIO (run (initialize c i ext) evs1) = Awaiting io a b"
    and "conn (run (initialize c i ext) evs1) r = Pending"
  shows "trace (run (initialize c i ext) (evs1 @ [ClientSettled r (Some e)])) =
           trace (run (initialize c i ext) evs1) @ [LogError SetupServer None e] \<and>
         exit_code (run (initialize c i ext) (evs1 @ [ClientSettled r (Some e)])) = None \<and>
         LogError SetupServer None e \<in>
           set (trace (run (initialize c i ext) (evs1 @ ClientSettled r (Some e) # evs2))) \<and>
         (\<forall>x y. IoAdapter x y \<notin>
           set (trace (run (initialize c i ext) (evs1 @ ClientSettled r (Some e) # evs2)))) \<and>
         (\<forall>io'. socketIO (run (initialize c i ext) (evs1 @ ClientSettled r (Some e) # evs2))
            \<noteq> Resolved io') \<and>
         (\<forall>n. HttpListen n \<notin>
           set (trace (run (initialize c i ext) (evs1 @ ClientSettled r (Some e) # evs2)))) \<and>
         ((\<forall>e'. MongoSettled (Some e') \<notin> set evs2) \<longrightarrow>
            exit_code (run (initialize c i ext) (evs1 @ ClientSettled r (Some e) # evs2)) = None)"
proof -
  define p1 where "p1 = run (initialize c i ext) evs1"
  define p2 where "p2 = step p1 (ClientSettled r (Some e))"
  define q where "q = run p2 evs2"
  have wf1: "wf c p1"
    unfolding p1_def by (rule wf_run) (rule wf_initialize)
  have p2: "trace p2 = trace p1 @ [LogError SetupServer None e]"
    "socketIO p2 = RejectedWith e" "exit_code p2 = None"
    using step_client_failure [OF wf1, of io a b r e] assms
    by (simp_all add: p1_def [symmetric] p2_def)
  have wfq: "wf c q"
    unfolding q_def p2_def by (intro wf_run wf_step wf1)
  have rej: "socketIO q = RejectedWith e"
    unfolding q_def by (rule run_rejected_stable) (rule p2(2))
  have exit: "exit_code q = None" if "\<forall>e'. MongoSettled (Some e') \<notin> set evs2"
    using run_not_mongo_failure [OF that, of p2] p2(3) by (simp add: q_def)
  have one: "run (initialize c i ext) (evs1 @ [ClientSettled r (Some e)]) = p2"
    by (simp add: run_snoc p1_def p2_def)
  have all: "run (initialize c i ext) (evs1 @ ClientSettled r (Some e) # evs2) = q"
    by (simp add: run_append run_Cons p1_def p2_def q_def)
  show ?thesis
    unfolding one all p1_def [symmetric] using p2 wf_rejected [OF wfq rej] rej exit by simp
qed

text \<open>
  The publishing client connects, then the subscribing one is refused; the storage
  connects and a stray \<^verbatim>\<open>listening\<close> arrives afterwards.
\<close>

theorem broker_failure_witness:
  "exit_code (run demo_boot [ClientSettled Pub None]) = None \<and>
   conn (run demo_boot [ClientSettled Pub None]) Sub = Pending \<and>
   trace (run demo_boot ([ClientSettled Pub None] @ [ClientSettled Sub (Some (OtherError ''refused''))])) =
     trace (run demo_boot [ClientSettled Pub None]) @ [LogError SetupServer None (OtherError ''refused'')] \<and>
   HttpListen SERVER_PORT \<notin> set (trace (run demo_boot
     ([ClientSettled Pub None] @ ClientSettled Sub (Some (OtherError ''refused'')) # [MongoSettled None, Listening]))) \<and>
   exit_code (run demo_boot
     ([ClientSettled Pub None] @ ClientSettled Sub (Some (OtherError ''refused'')) # [MongoSettled None, Listening])) = None"
proof -
  have a: "exit_code (run demo_boot [ClientSettled Pub None]) = None"
    by (simp add: demo_defs eval_defs)
  have b: "socketIO (run demo_boot [ClientSettled Pub None]) =
      Awaiting \<lparr>cors_origin = CLIENT_URL demo_config, adapter = None, connection_listeners = []\<rparr>
        \<lparr>handle = 0, url = REDIS_HOST demo_config\<rparr> \<lparr>handle = 1, url = REDIS_HOST demo_config\<rparr>"
    by (simp add: demo_defs eval_defs)
  have c: "conn (run demo_boot [ClientSettled Pub None]) Sub = Pending"
    by (simp add: demo_defs eval_defs)
  have d: "\<forall>e'. MongoSettled (Some e') \<notin> set [MongoSettled None, Listening]"
    by simp
  from broker_failure [OF a [unfolded demo_boot_def] b [unfolded demo_boot_def]
      c [unfolded demo_boot_def], of "OtherError ''refused''" "[MongoSettled None, Listening]"]
  show ?thesis using a c d unfolding demo_boot_def [symmetric] by simp
qed




text \<open>
  Claim C6, as the code has it. The error handler is the last layer of the stack. For a
  \<^verbatim>\<open>CustomError\<close> whose \<^verbatim>\<open>serializeErrors()\<close> gives \<open>body\<close> and whose status code \<open>sc\<close> is
  within 200..999 and not 204, 205 or 304, raised for a request whose method is not
  \<^verbatim>\<open>HEAD\<close> and that is not answered with 304 for its validators, and arriving while no
  response was sent, it logs the error and sends \<open>body\<close> under the status \<open>sc\<close>: that is
  the response.
\<close>

theorem custom_error_response:
  assumes "200 \<le> sc" and "sc \<le> 999" and "sc \<noteq> 204 \<and> sc \<noteq> 205 \<and> sc \<noteq> 304"
    and "req_method req \<noteq> ''HEAD''" and "\<not> fresh req sc body" and "sent x = None"
  shows "(\<exists>stack. app (run (initialize c i ext) evs) = stack @ [UseError globalErrorHandler_onError]) \<and>
   globalErrorHandler_onError (CustomError sc body) req x =
     (x\<lparr>statusCode := sc, sent := Some (sc, Json body),
        logged := logged x @ [LogError SetupServer None (CustomError sc body)]\<rparr>, Next None) \<and>
   dispatch [UseError globalErrorHandler_onError] (Some (CustomError sc body)) req x =
     (x\<lparr>statusCode := sc, sent := Some (sc, Json body),
        logged := logged x @ [LogError SetupServer None (CustomError sc body)]\<rparr>, Next None)"
  using assms
  by (simp add: run_app initialize_app globalErrorHandler_onError_def log_error_def
        res_json_def res_status_def has_body_def Let_def)

text \<open>
  The example of the specification: status code 400 and the body \<^verbatim>\<open>{field: "x"}\<close>.
\<close>

theorem custom_error_response_witness:
  "dispatch [UseError globalErrorHandler_onError]
     (Some (CustomError 400 (JObj [(''field'', JStr ''x'')])))
     (demo_request ''POST'' ''/api/v1/signup'') fresh_exchange =
     (\<lparr>statusCode = 400, sent = Some (400, Json (JObj [(''field'', JStr ''x'')])),
       logged = [LogError SetupServer None (CustomError 400 (JObj [(''field'', JStr ''x'')]))]\<rparr>,
      Next None)"
proof -
  have a: "(200::nat) \<le> 400" and b: "(400::nat) \<le> 999"
    and c: "(400::nat) \<noteq> 204 \<and> (400::nat) \<noteq> 205 \<and> (400::nat) \<noteq> 304"
    and d: "req_method (demo_request ''POST'' ''/api/v1/signup'') \<noteq> ''HEAD''"
    and e: "\<not> fresh (demo_request ''POST'' ''/api/v1/signup'') 400 (JObj [(''field'', JStr ''x'')])"
    and f: "sent fresh_exchange = None"
    by (simp_all add: fresh_exchange_def demo_request_def fresh_def)
  from custom_error_response [OF a b c d e f, of demo_config "''4242''" demo_externals "[]"]
  show ?thesis by (simp add: fresh_exchange_def)
qed

text \<open>
  Claim C6 as stated fails: for a \<^verbatim>\<open>CustomError\<close> whose status code is 1000,
  \<^verbatim>\<open>res.status(1000).json(body)\<close> throws and nothing is sent; and when the response 200
  \<^verbatim>\<open>"ok"\<close> was already sent, a \<^verbatim>\<open>CustomError\<close> with the status code 400 leaves that response
  as it is.
\<close>

theorem custom_error_not_sent:
  "dispatch [UseError globalErrorHandler_onError]
     (Some (CustomError 1000 (JObj [(''field'', JStr ''x'')])))
     (demo_request ''POST'' ''/api/v1/signup'') fresh_exchange =
     (\<lparr>statusCode = 1000, sent = None,
       logged = [LogError SetupServer None (CustomError 1000 (JObj [(''field'', JStr ''x'')]))]\<rparr>,
      Next (Some (OtherError ''ERR_HTTP_INVALID_STATUS_CODE''))) \<and>
   sent (fst (dispatch [UseError globalErrorHandler_onError]
     (Some (CustomError 400 (JObj [(''field'', JStr ''x'')])))
     (demo_request ''POST'' ''/api/v1/signup'')
     \<lparr>statusCode = 200, sent = Some (200, Json (JStr ''ok'')), logged = []\<rparr>)) =
     Some (200, Json (JStr ''ok''))"
  by (simp add: globalErrorHandler_onError_def log_error_def res_json_def res_status_def
        fresh_exchange_def Let_def)

text \<open>
  Claim C7, as the code has it. The synchronous part of \<^verbatim>\<open>initialize\<close> begins the steps
  in their order: the storage connect, the middleware, the http server, the socket.io
  server, the two redis clients and their two \<^verbatim>\<open>connect()\<close> calls. When it returns, the
  storage connect is still pending: it is not awaited, the later steps do not wait for
  it. In every run, what follows contains the attaching of the adapter and the call of
  \<^verbatim>\<open>listen\<close> either not at all or once each and in this order, and then both redis
  connections have succeeded: the binding of the listener waits for the bridge.
\<close>

theorem startup_order:
  "trace (initialize c i ext) =
     [ValidateConfig, MongooseConnect (DATABASE_URL c), OnDisconnected, Express,
      AppUse ''cookieSession'', AppUse ''hpp'', AppUse ''helmet'', AppUse ''cors'',
      AppUse ''compression'', AppUse ''json'', AppUse ''urlencoded'', ApplicationRoutes,
      AppAll ''*'', AppUseErrorHandler, NewHttpServer, NewSocketIO (CLIENT_URL c),
      CreateClient 0 (REDIS_HOST c), Duplicate 0 1, ClientConnect 0, ClientConnect 1] \<and>
   db_pending (initialize c i ext) = 1 \<and>
   pub_conn (initialize c i ext) = Pending \<and> sub_conn (initialize c i ext) = Pending \<and>
   (\<exists>rest. trace (run (initialize c i ext) evs) = trace (initialize c i ext) @ rest \<and>
      (filter is_late rest = [] \<or>
       filter is_late rest = [IoAdapter 0 1, HttpListen SERVER_PORT] \<and>
       pub_conn (run (initialize c i ext) evs) = Fulfilled \<and>
       sub_conn (run (initialize c i ext) evs) = Fulfilled))"
proof -
  define p where "p = run (initialize c i ext) evs"
  have wfp: "wf c p"
    unfolding p_def by (rule wf_run) (rule wf_initialize)
  obtain rest where rest: "trace p = trace (initialize c i ext) @ rest"
    unfolding p_def using run_trace_extends by blast
  have "filter is_late (trace (initialize c i ext)) = []"
    by (simp add: initialize_trace is_late_def)
  with rest have late: "filter is_late rest = filter is_late (trace p)"
    by simp
  have "filter is_late (trace p) = [] \<or>
       filter is_late (trace p) = [IoAdapter 0 1, HttpListen SERVER_PORT] \<and>
       pub_conn p = Fulfilled \<and> sub_conn p = Fulfilled"
    using wfp by (cases "socketIO p") (simp_all add: wf_def)
  with rest late have "\<exists>rest. trace p = trace (initialize c i ext) @ rest \<and>
      (filter is_late rest = [] \<or>
       filter is_late rest = [IoAdapter 0 1, HttpListen SERVER_PORT] \<and>
       pub_conn p = Fulfilled \<and> sub_conn p = Fulfilled)"
    by auto
  then show ?thesis
    unfolding p_def by (simp add: initialize_trace initialize_fields)
qed

text \<open>
  The storage connect settles between the two redis connections.
\<close>

theorem startup_order_witness:
  "\<exists>rest. trace (run demo_boot [ClientSettled Pub None, MongoSettled None, ClientSettled Sub None]) =
      trace demo_boot @ rest \<and>
      (filter is_late rest = [] \<or>
       filter is_late rest = [IoAdapter 0 1, HttpListen SERVER_PORT] \<and>
       pub_conn (run demo_boot [ClientSettled Pub None, MongoSettled None, ClientSettled Sub None]) = Fulfilled \<and>
       sub_conn (run demo_boot [ClientSettled Pub None, MongoSettled None, ClientSettled Sub None]) = Fulfilled)"
  using startup_order [of demo_config "''4242''" demo_externals
      "[ClientSettled Pub None, MongoSettled None, ClientSettled Sub None]"]
  unfolding demo_boot_def [symmetric] by blast

text \<open>
  Claim C7 as stated fails: the server is listening (step 6 is complete) while the
  storage connect of step 1 is still pending and has logged nothing.
\<close>

theorem listening_while_storage_pending:
  "listening (run demo_boot [ClientSettled Pub None, ClientSettled Sub None, Listening]) \<and>
   db_pending (run demo_boot [ClientSettled Pub None, ClientSettled Sub None, Listening]) = 1 \<and>
   db_successes (run demo_boot [ClientSettled Pub None, ClientSettled Sub None, Listening]) = 0 \<and>
   HttpListen SERVER_PORT \<in>
     set (trace (run demo_boot [ClientSettled Pub None, ClientSettled Sub None, Listening]))"
  by (simp add: demo_defs eval_defs count_defs)

text \<open>
  Claim C8. \<^verbatim>\<open>createClient\<close> followed by \<^verbatim>\<open>duplicate\<close> gives two client objects of
  different identity for the same url. In every run the suspended \<^verbatim>\<open>createSocketIO\<close>
  holds, and the attached adapter is made of, two clients with different handles, both
  for \<^verbatim>\<open>config.REDIS_HOST\<close>; the remaining case is the failed setup, which has no
  adapter.
\<close>

theorem bridge_two_clients:
  "(let (a, p1) = createClient u p; (b, p2) = duplicate a p1
    in handle a \<noteq> handle b \<and> url a = u \<and> url b = u) \<and>
   ((\<exists>io a b. socketIO (run (initialize c i ext) evs) = Awaiting io a b \<and>
        handle a \<noteq> handle b \<and> url a = REDIS_HOST c \<and> url b = REDIS_HOST c) \<or>
    (\<exists>io a b. socketIO (run (initialize c i ext) evs) = Resolved io \<and>
        adapter io = Some (a, b) \<and>
        handle a \<noteq> handle b \<and> url a = REDIS_HOST c \<and> url b = REDIS_HOST c) \<or>
    (\<exists>e. socketIO (run (initialize c i ext) evs) = RejectedWith e))"
proof -
  define p' where "p' = run (initialize c i ext) evs"
  have wfp: "wf c p'"
    unfolding p'_def by (rule wf_run) (rule wf_initialize)
  have first: "let (a, p1) = createClient u p; (b, p2) = duplicate a p1
    in handle a \<noteq> handle b \<and> url a = u \<and> url b = u"
    by (simp add: createClient_def duplicate_def emit_def)
  have second: "(\<exists>io a b. socketIO p' = Awaiting io a b \<and>
        handle a \<noteq> handle b \<and> url a = REDIS_HOST c \<and> url b = REDIS_HOST c) \<or>
    (\<exists>io a b. socketIO p' = Resolved io \<and> adapter io = Some (a, b) \<and>
        handle a \<noteq> handle b \<and> url a = REDIS_HOST c \<and> url b = REDIS_HOST c) \<or>
    (\<exists>e. socketIO p' = RejectedWith e)"
    using wfp by (cases "socketIO p'") (simp_all add: wf_def)
  from first second show ?thesis
    unfolding p'_def by blast
qed

text \<open>
  After both connections succeeded the adapter holds the clients 0 and 1.
\<close>

theorem bridge_two_clients_witness:
  "\<exists>io a b. socketIO (run demo_boot [ClientSettled Sub None, ClientSettled Pub None]) = Resolved io \<and>
     adapter io = Some (a, b) \<and> handle a \<noteq> handle b \<and>
     url a = REDIS_HOST demo_config \<and> url b = REDIS_HOST demo_config"
proof -
  have "\<exists>io. socketIO (run demo_boot [ClientSettled Sub None, ClientSettled Pub None]) = Resolved io"
    by (simp add: demo_defs eval_defs)
  with bridge_two_clients [of "REDIS_HOST demo_config" "init_proc demo_config ''4242''"
      demo_config "''4242''" demo_externals "[ClientSettled Sub None, ClientSettled Pub None]"]
  show ?thesis unfolding demo_boot_def [symmetric] by auto
qed

text \<open>
  Claim C9, as the code has it. The error handler logs every error. It then calls
  \<^verbatim>\<open>next()\<close>, without an argument, exactly when the error is not a \<^verbatim>\<open>CustomError\<close>, or is
  one whose status code is within 100..999 and no response was sent before: then
  express goes on with the layers that follow, with no error pending. In the other
  cases \<^verbatim>\<open>res.status(...).json(...)\<close> throws, \<^verbatim>\<open>next()\<close> is not reached, the handler sends
  nothing, and express goes on with the thrown error pending.
\<close>

theorem error_handler_calls_next:
  "(snd (globalErrorHandler_onError error req x) = Next None) =
     (case error of
        CustomError sc body \<Rightarrow> sent x = None \<and> 100 \<le> sc \<and> sc \<le> 999
      | OtherError m \<Rightarrow> True) \<and>
   (snd (globalErrorHandler_onError error req x) = Next None \<and>
      dispatch (UseError globalErrorHandler_onError # ls) (Some error) req x =
        dispatch ls None req (fst (globalErrorHandler_onError error req x)) \<or>
    (\<exists>thrown. snd (globalErrorHandler_onError error req x) = Throw thrown \<and>
       sent (fst (globalErrorHandler_onError error req x)) = sent x \<and>
       dispatch (UseError globalErrorHandler_onError # ls) (Some error) req x =
         dispatch ls (Some thrown) req (fst (globalErrorHandler_onError error req x)))) \<and>
   logged (fst (globalErrorHandler_onError error req x)) =
     logged x @ [LogError SetupServer None error]"
  by (cases error; cases "sent x")
     (auto simp: globalErrorHandler_onError_def log_error_def res_json_def res_status_def
        Let_def)

text \<open>
  A \<^verbatim>\<open>CustomError\<close> with a status code that can be sent, and an error of another kind,
  each on a new response: \<^verbatim>\<open>next()\<close> is called.
\<close>

theorem error_handler_calls_next_witness:
  "snd (globalErrorHandler_onError (CustomError 400 (JObj [(''field'', JStr ''x'')]))
     (demo_request ''POST'' ''/api/v1/signup'') fresh_exchange) = Next None \<and>
   snd (globalErrorHandler_onError (OtherError ''boom'')
     (demo_request ''POST'' ''/api/v1/signup'') fresh_exchange) = Next None"
  using error_handler_calls_next [of "CustomError 400 (JObj [(''field'', JStr ''x'')])"
      "(demo_request ''POST'' ''/api/v1/signup'')" fresh_exchange "[]"]
    error_handler_calls_next [of "OtherError ''boom''"
      "(demo_request ''POST'' ''/api/v1/signup'')" fresh_exchange "[]"]
  by (simp add: fresh_exchange_def)

text \<open>
  Claim C9 as stated fails: for a \<^verbatim>\<open>CustomError\<close> whose status code is 1000, and for one
  that arrives after a response was sent, the handler throws and does not call
  \<^verbatim>\<open>next()\<close>.
\<close>

theorem error_handler_throws:
  "snd (globalErrorHandler_onError (CustomError 1000 (JObj [(''field'', JStr ''x'')]))
     (demo_request ''POST'' ''/api/v1/signup'') fresh_exchange) =
     Throw (OtherError ''ERR_HTTP_INVALID_STATUS_CODE'') \<and>
   snd (globalErrorHandler_onError (CustomError 400 (JObj [(''field'', JStr ''x'')]))
     (demo_request ''POST'' ''/api/v1/signup'')
     \<lparr>statusCode = 200, sent = Some (200, Json (JStr ''ok'')), logged = []\<rparr>) =
     Throw (OtherError ''ERR_HTTP_HEADERS_SENT'')"
  by (simp add: globalErrorHandler_onError_def log_error_def res_json_def res_status_def
        fresh_exchange_def Let_def)

text \<open>
  Claim C10. \<^verbatim>\<open>socketIOConnections\<close> has an empty body: the server it is given is the
  server afterwards, \<^verbatim>\<open>startServer\<close> goes on to \<^verbatim>\<open>startHttpServer\<close> with that same server,
  and in every run the server that \<^verbatim>\<open>createSocketIO\<close> returned has no listener for
  \<^verbatim>\<open>connection\<close>.
\<close>

theorem connect_hook_is_noop:
  "socketIOConnections io = io \<and>
   startServer_resume io p = startHttpServer (p\<lparr>socketIO := Resolved io\<rparr>) \<and>
   (\<forall>io'. socketIO (run (initialize c i ext) evs) = Resolved io' \<longrightarrow>
      connection_listeners io' = [])"
proof -
  have wfp: "wf c (run (initialize c i ext) evs)"
    by (rule wf_run) (rule wf_initialize)
  have "connection_listeners io' = []"
    if "socketIO (run (initialize c i ext) evs) = Resolved io'" for io'
    using wfp that by (simp add: wf_def)
  then show ?thesis
    by (simp add: socketIOConnections_def startServer_resume_def)
qed

text \<open>
  The server of a completed setup.
\<close>

theorem connect_hook_is_noop_witness:
  "socketIO (run demo_boot [ClientSettled Sub None, ClientSettled Pub None]) =
     Resolved \<lparr>cors_origin = CLIENT_URL demo_config,
               adapter = Some (\<lparr>handle = 0, url = REDIS_HOST demo_config\<rparr>,
                               \<lparr>handle = 1, url = REDIS_HOST demo_config\<rparr>),
               connection_listeners = []\<rparr> \<and>
   connection_listeners (socketIOConnections
     \<lparr>cors_origin = CLIENT_URL demo_config,
      adapter = Some (\<lparr>handle = 0, url = REDIS_HOST demo_config\<rparr>,
                      \<lparr>handle = 1, url = REDIS_HOST demo_config\<rparr>),
      connection_listeners = []\<rparr>) = []"
proof -
  have a: "socketIO (run demo_boot [ClientSettled Sub None, ClientSettled Pub None]) =
     Resolved \<lparr>cors_origin = CLIENT_URL demo_config,
               adapter = Some (\<lparr>handle = 0, url = REDIS_HOST demo_config\<rparr>,
                               \<lparr>handle = 1, url = REDIS_HOST demo_config\<rparr>),
               connection_listeners = []\<rparr>"
    by (simp add: demo_defs eval_defs)
  from connect_hook_is_noop [of
      "\<lparr>cors_origin = CLIENT_URL demo_config,
        adapter = Some (\<lparr>handle = 0, url = REDIS_HOST demo_config\<rparr>,
                        \<lparr>handle = 1, url = REDIS_HOST demo_config\<rparr>),
        connection_listeners = []\<rparr>"
      "init_proc demo_config ''4242''" demo_config "''4242''" demo_externals
      "[ClientSettled Sub None, ClientSettled Pub None]"]
  show ?thesis using a unfolding demo_boot_def [symmetric] by simp
qed

end
